theory Spec2Isabelle
  imports Main
begin

section \<open>Data model (types.ts)\<close>

text \<open>
  A JavaScript number as the program meets it in a visitor count: \<^verbatim>\<open>NaN\<close>, an integral finite
  value, or one of the two infinities.  Time stamps and capacities are integers.
\<close>

datatype js_number = NaN | Finite int | Infinity | MinusInfinity

text \<open>
  The interfaces \<^verbatim>\<open>GymConfig\<close>, \<^verbatim>\<open>DataPoint\<close> and \<^verbatim>\<open>GymData\<close>.  The field \<^verbatim>\<open>id\<close> of a
  configuration is called \<open>gym_id\<close> (and \<^verbatim>\<open>name\<close> is \<open>gym_name\<close>), since \<open>id\<close> is the identity
  function of HOL.
\<close>

record GymConfig =
  gym_id :: string
  gym_name :: string
  parkId :: string
  locationId :: string
  locationName :: string

record DataPoint =
  timestamp :: int
  visitors :: js_number
  maxCapacity :: int

record GymData =
  config :: GymConfig
  current :: "DataPoint option"
  history :: "DataPoint list"
  lastUpdated :: int

text \<open>
  The backing document \<^verbatim>\<open>gym_history.json\<close>: one JSON object from facility id to an array of
  data points, newest last.
\<close>

type_synonym db = "string \<rightharpoonup> DataPoint list"

section \<open>The JavaScript runtime\<close>

text \<open>
  \<^verbatim>\<open>arr.slice(-n)\<close> for a positive \<open>n\<close>: the start index is \<open>max (length - n) 0\<close>, which is
  the truncating subtraction of \<open>nat\<close>.
\<close>

definition slice_last :: "nat \<Rightarrow> 'a list \<Rightarrow> 'a list" where
  "slice_last n xs = drop (length xs - n) xs"

text \<open>
  The outcome of \<^verbatim>\<open>fetch(url)\<close> followed by reading the body: the promise of \<^verbatim>\<open>fetch\<close> rejects
  (\<open>Rejected\<close>), or it resolves to a response with its \<^verbatim>\<open>ok\<close> flag and the outcome of
  \<^verbatim>\<open>response.text()\<close> or \<^verbatim>\<open>response.json()\<close>: \<open>None\<close> when that promise rejects (for
  \<^verbatim>\<open>json()\<close>: the body is not JSON), else the text or the JSON value, whatever it is.
\<close>

datatype 'a response = Rejected | Response bool "'a option"

text \<open>
  A string that is read character by character is a list of UTF-16 code units; \<open>js\<close> turns
  an ASCII literal into one.
\<close>

type_synonym js_string = "nat list"

definition js :: "string \<Rightarrow> js_string" where
  "js s = map of_char s"

text \<open>
  The characters that \<^verbatim>\<open>String.prototype.trim\<close> strips and \<^verbatim>\<open>parseInt\<close> skips: the classes
  WhiteSpace (tab, vertical tab, form feed, U+FEFF and the space separators U+0020, U+00A0,
  U+1680, U+2000 to U+200A, U+202F, U+205F, U+3000) and LineTerminator (line feed, carriage
  return, U+2028, U+2029) of ECMAScript.
\<close>

definition is_space :: "nat \<Rightarrow> bool" where
  "is_space c =
     (c \<in> {9, 10, 11, 12, 13, 32, 160, 5760, 8232, 8233, 8239, 8287, 12288, 65279} \<or>
      (8192 \<le> c \<and> c \<le> 8202))"

definition is_digit :: "nat \<Rightarrow> bool" where
  "is_digit c = (48 \<le> c \<and> c \<le> 57)"

definition trim :: "js_string \<Rightarrow> js_string" where
  "trim s = rev (dropWhile is_space (rev (dropWhile is_space s)))"

fun digits_value :: "nat \<Rightarrow> js_string \<Rightarrow> nat" where
  "digits_value acc [] = acc"
| "digits_value acc (c # cs) = digits_value (10 * acc + (c - 48)) cs"

text \<open>
  The Number value of a natural number: the nearest number with 53 significant bits, a tie
  going to the even one.  \<open>bitlen\<close> is the number of bits of its argument.
\<close>

fun bitlen :: "nat \<Rightarrow> nat" where
  "bitlen n = (if n = 0 then 0 else Suc (bitlen (n div 2)))"

declare bitlen.simps [simp del]

definition to_double :: "nat \<Rightarrow> nat" where
  "to_double n =
     (if n < 2 ^ 53 then n
      else (let sh = bitlen n - 53;
                q = n div 2 ^ sh;
                r = n mod 2 ^ sh;
                h = 2 ^ (sh - 1)
            in (if r > h \<or> (r = h \<and> odd q) then q + 1 else q) * 2 ^ sh))"

text \<open>
  \<^verbatim>\<open>parseInt(s, 10)\<close>: leading white space is skipped, an optional sign is read, then the
  longest prefix of decimal digits; whatever follows is ignored.  Without a digit the result is
  \<^verbatim>\<open>NaN\<close>.  The digits denote an integer whose Number value is returned (every digit counts,
  as in V8); from \<open>2 ^ 1024\<close> on that value is an infinity.
\<close>

definition parseInt :: "js_string \<Rightarrow> js_number" where
  "parseInt s =
     (let t = dropWhile is_space s;
          neg = (t \<noteq> [] \<and> hd t = 45);
          r = (if t \<noteq> [] \<and> (hd t = 45 \<or> hd t = 43) then tl t else t);
          ds = takeWhile is_digit r;
          m = to_double (digits_value 0 ds)
      in if ds = [] then NaN
         else if m \<ge> 2 ^ 1024 then (if neg then MinusInfinity else Infinity)
         else Finite (if neg then - int m else int m))"

section \<open>Sampler of the client (services/gymService.ts, fetchGymData)\<close>


section \<open>Static updater (update_data.js)\<close>

text \<open>
  What the script finds at \<^verbatim>\<open>DATA_FILE\<close>: no file, a file that cannot be read, a file whose
  text is not JSON, or a document.  The effects of a run are recorded as a trace: every request
  that is issued and every \<^verbatim>\<open>fs.writeFileSync\<close> with the document it writes.
\<close>

datatype file_state = Missing | Unreadable | Malformed | Document db

datatype event = Fetch string | Write db

definition GYMS :: "(string \<times> string) list" where
  "GYMS = [(''glattpark'',
     ''https://www.fitnesspark.ch/wp/wp-admin/admin-ajax.php?action=single_park_update_visitors&park_id=698&location_id=31&location_name=FP_Glattpark'')]"

text \<open>\<^verbatim>\<open>fetchVisitors\<close>: \<^verbatim>\<open>null\<close> for a rejected request, a status that is not ok or \<^verbatim>\<open>NaN\<close>.\<close>

definition fetchVisitors :: "js_string response \<Rightarrow> js_number option" where
  "fetchVisitors r =
     (case r of
        Rejected \<Rightarrow> None
      | Response ok body \<Rightarrow>
          if \<not> ok then None
          else (case body of
                  None \<Rightarrow> None
                | Some text \<Rightarrow>
                    (let val = parseInt (trim text) in if val = NaN then None else Some val)))"

text \<open>
  What the world supplies to one iteration of the loop: the outcome of the request, the value
  of \<^verbatim>\<open>Date.now()\<close> stored in \<^verbatim>\<open>newPoint\<close> and the value of \<^verbatim>\<open>Date.now()\<close> read by the
  duplicate check.
\<close>

record tick =
  reply :: "js_string response"
  now_point :: int
  now_check :: int

text \<open>
  The body of \<^verbatim>\<open>if (visitors !== null)\<close> on the array of one facility: push unless the last
  entry is at most 60000 ms old, then trim to the last 5000 entries.
\<close>

definition append_point :: "DataPoint list \<Rightarrow> DataPoint \<Rightarrow> int \<Rightarrow> DataPoint list" where
  "append_point arr newPoint now =
     (let arr1 = (if arr = [] \<or> now - timestamp (last arr) > 60000
                  then arr @ [newPoint] else arr)
      in if length arr1 > 5000 then slice_last 5000 arr1 else arr1)"

definition update_gym :: "db \<Rightarrow> string \<Rightarrow> tick \<Rightarrow> db" where
  "update_gym d gid w =
     (case fetchVisitors (reply w) of
        None \<Rightarrow> d
      | Some v \<Rightarrow>
          d(gid \<mapsto> append_point (case d gid of None \<Rightarrow> [] | Some arr \<Rightarrow> arr)
                     \<lparr>timestamp = now_point w, visitors = v, maxCapacity = 300\<rparr>
                     (now_check w)))"

record updater =
  udb :: db
  ufile :: file_state
  utrace :: "event list"

text \<open>Step 1 of \<^verbatim>\<open>run\<close>: every failure to read or parse is caught and leaves \<^verbatim>\<open>db = {}\<close>.\<close>

definition load :: "file_state \<Rightarrow> db" where
  "load f = (case f of Document d \<Rightarrow> d | _ \<Rightarrow> Map.empty)"

text \<open>Step 2: the loop over the facilities; the number counts the iterations.\<close>

fun run_loop :: "nat \<Rightarrow> (string \<times> string) list \<Rightarrow> (nat \<Rightarrow> tick) \<Rightarrow> updater \<Rightarrow> updater" where
  "run_loop i [] world s = s"
| "run_loop i (gym # rest) world s =
     run_loop (Suc i) rest world
       (s\<lparr>udb := update_gym (udb s) (fst gym) (world i),
          utrace := utrace s @ [Fetch (snd gym)]\<rparr>)"

text \<open>Step 3: one \<^verbatim>\<open>writeFileSync\<close> of the whole document.\<close>

definition run_for :: "(string \<times> string) list \<Rightarrow> file_state \<Rightarrow> (nat \<Rightarrow> tick) \<Rightarrow> updater" where
  "run_for gs f world =
     (let s = run_loop 0 gs world \<lparr>udb = load f, ufile = f, utrace = []\<rparr>
      in s\<lparr>ufile := Document (udb s), utrace := utrace s @ [Write (udb s)]\<rparr>)"

definition run :: "file_state \<Rightarrow> (nat \<Rightarrow> tick) \<Rightarrow> updater" where
  "run = run_for GYMS"

text \<open>
  A series under repeated runs of the script: each element is one run in which the request
  succeeded, with the visitor count and the two clock values of that run.
\<close>

fun appends :: "DataPoint list \<Rightarrow> (js_number \<times> int \<times> int) list \<Rightarrow> DataPoint list" where
  "appends arr [] = arr"
| "appends arr ((v, tp, tc) # rest) =
     appends (append_point arr \<lparr>timestamp = tp, visitors = v, maxCapacity = 300\<rparr> tc) rest"

section \<open>Background server (server/server.js)\<close>

datatype js_error = SyntaxError | FsError

record ServerGym = GymConfig +
  url :: string

record server =
  gyms :: "ServerGym list"
  sdb :: db
  sfile :: file_state
  strace :: "event list"

text \<open>
  \<^verbatim>\<open>initDB\<close>: \<^verbatim>\<open>fs.readFileSync\<close> and \<^verbatim>\<open>JSON.parse\<close> are called outside any \<^verbatim>\<open>try\<close>, and
  \<^verbatim>\<open>initDB()\<close> is called at the top level of the module, so their exceptions end the process.
  Without a file the seed history is stored and saved.  The seed history is the parsed
  \<^verbatim>\<open>RAW_SEED_DATA\<close>, whose timestamps depend on the time zone of the host; it is a parameter.
\<close>

definition initDB :: "DataPoint list \<Rightarrow> server \<Rightarrow> js_error + server" where
  "initDB seedHistory s =
     (case sfile s of
        Document d \<Rightarrow> Inr (s\<lparr>sdb := d\<rparr>)
      | Unreadable \<Rightarrow> Inl FsError
      | Malformed \<Rightarrow> Inl SyntaxError
      | Missing \<Rightarrow>
          (let d = (sdb s)(''glattpark'' \<mapsto> seedHistory)
           in Inr (s\<lparr>sdb := d, sfile := Document d, strace := strace s @ [Write d]\<rparr>)))"

text \<open>
  What the world supplies to one call of the server's \<^verbatim>\<open>fetchGymData\<close>: the outcome of the
  request, the value of \<^verbatim>\<open>Date.now()\<close> and whether \<^verbatim>\<open>fs.writeFileSync\<close> succeeds.
\<close>

record stick =
  sreply :: "js_string response"
  snow :: int
  write_ok :: bool

text \<open>
  The server's \<^verbatim>\<open>fetchGymData\<close> in its two parts.  \<open>issue\<close> is the part before the first
  \<^verbatim>\<open>await\<close>: the request is sent.  \<open>settle\<close> is the part that runs once the response is
  there: the data point is always pushed (no duplicate check, no cap: the \<^verbatim>\<open>slice\<close> is
  commented out) and \<^verbatim>\<open>saveDB()\<close> is called in the same call.  A failing write is caught by
  the same \<^verbatim>\<open>catch\<close>: the function returns \<^verbatim>\<open>null\<close>, the point stays in memory.  The entries
  of the database are arrays, as the type \<open>db\<close> has it, so \<^verbatim>\<open>push\<close> does not throw.
\<close>

definition issue :: "ServerGym \<Rightarrow> server \<Rightarrow> server" where
  "issue gymConfig s = s\<lparr>strace := strace s @ [Fetch (url gymConfig)]\<rparr>"

definition settle :: "ServerGym \<Rightarrow> stick \<Rightarrow> server \<Rightarrow> DataPoint option \<times> server" where
  "settle gymConfig w s =
     (case sreply w of
        Rejected \<Rightarrow> (None, s)
      | Response ok body \<Rightarrow>
          if \<not> ok then (None, s)
          else (case body of
                  None \<Rightarrow> (None, s)
                | Some text \<Rightarrow>
                    (let v = parseInt (trim text)
                     in if v = NaN then (None, s)
                        else (let dataPoint = \<lparr>timestamp = snow w, visitors = v, maxCapacity = 300\<rparr>;
                                  d = (sdb s)(gym_id gymConfig \<mapsto>
                                        (case sdb s (gym_id gymConfig) of None \<Rightarrow> [] | Some arr \<Rightarrow> arr)
                                        @ [dataPoint])
                              in if write_ok w
                                 then (Some dataPoint,
                                       s\<lparr>sdb := d, sfile := Document d, strace := strace s @ [Write d]\<rparr>)
                                 else (None, s\<lparr>sdb := d\<rparr>)))))"

definition server_fetchGymData :: "ServerGym \<Rightarrow> stick \<Rightarrow> server \<Rightarrow> DataPoint option \<times> server" where
  "server_fetchGymData gymConfig w s = settle gymConfig w (issue gymConfig s)"

text \<open>\<^verbatim>\<open>runJob\<close>: the facilities one after the other, each call awaited.\<close>

fun runJob_loop :: "nat \<Rightarrow> ServerGym list \<Rightarrow> (nat \<Rightarrow> stick) \<Rightarrow> server \<Rightarrow> server" where
  "runJob_loop i [] world s = s"
| "runJob_loop i (gym # rest) world s =
     runJob_loop (Suc i) rest world (snd (server_fetchGymData gym (world i) s))"

definition runJob :: "(nat \<Rightarrow> stick) \<Rightarrow> server \<Rightarrow> server" where
  "runJob world s = runJob_loop 0 (gyms s) world s"





section \<open>Client: refresh of all facilities (App.tsx, refreshAllGyms)\<close>











section \<open>Client: source resolver (services/gymService.ts, loadGyms)\<close>

datatype source = Server | Cloud | Local

definition DEFAULT_GYMS :: "GymConfig list" where
  "DEFAULT_GYMS = [\<lparr>gym_id = ''glattpark'', gym_name = ''FP Glattpark'', parkId = ''698'',
                    locationId = ''31'', locationName = ''FP_Glattpark''\<rparr>]"

text \<open>
  The data of the result.  The server tier and the local storage tier hand on the parsed JSON
  value as it is, without looking at it (\<open>FromJson\<close>, for any type \<open>'j\<close> of JSON values); the
  other two tiers build the list of facilities (\<open>Built\<close>).
\<close>

datatype 'j loaded_data = FromJson 'j | Built "GymData list"

text \<open>
  The JSON value of the static file as the second tier reads it.  On \<^verbatim>\<open>null\<close> the lookup
  \<^verbatim>\<open>historyDb[config.id]\<close> throws, which the \<^verbatim>\<open>catch\<close> of the tier turns into the next tier.
  On every other JSON value the lookup gives the array stored for the id, or a value that is
  missing or falsy (\<open>None\<close>) and is replaced by the empty array.  The histories are arrays of
  data points, as the type \<^verbatim>\<open>DataPoint[]\<close> of the program has it.
\<close>

datatype history_doc = NullDocument | HistoryDb db

text \<open>
  \<^verbatim>\<open>localStorage.getItem(STORAGE_KEY)\<close>: nothing stored, or a string together with the outcome
  of \<^verbatim>\<open>JSON.parse\<close> on it (\<open>None\<close> when it throws; the empty string, which the test
  \<^verbatim>\<open>if (stored)\<close> rejects, does not parse either).
\<close>

datatype 'j stored = NoItem | Item "'j option"

text \<open>A request has loaded a value when the response is ok and \<^verbatim>\<open>response.json()\<close> resolves.\<close>

fun loaded :: "'a response \<Rightarrow> 'a option" where
  "loaded (Response True (Some x)) = Some x"
| "loaded _ = None"

definition cloud_gym :: "db \<Rightarrow> GymConfig \<Rightarrow> GymData" where
  "cloud_gym historyDb cfg =
     (let h = (case historyDb (gym_id cfg) of None \<Rightarrow> [] | Some arr \<Rightarrow> arr)
      in \<lparr>config = cfg,
          current = (if length h > 0 then Some (last h) else None),
          history = h,
          lastUpdated = (if length h > 0 then timestamp (last h) else 0)\<rparr>)"

text \<open>
  The seed history is \<^verbatim>\<open>parseRawData(RAW_DATA_GLATTPARK)\<close> of \<^verbatim>\<open>data/initialData\<close>, which is
  not among the sources; it is a parameter, like the clock.
\<close>

definition seed_gym :: "DataPoint list \<Rightarrow> int \<Rightarrow> GymConfig \<Rightarrow> GymData" where
  "seed_gym realHistory now cfg =
     (let h = (if gym_id cfg = ''glattpark'' then realHistory else [])
      in \<lparr>config = cfg,
          current = (if length h > 0 then Some (last h) else None),
          history = h,
          lastUpdated = (if length h > 0 then timestamp (last h) else now)\<rparr>)"

definition loadGyms ::
  "'j response \<Rightarrow> history_doc response \<Rightarrow> 'j stored \<Rightarrow> DataPoint list \<Rightarrow> int \<Rightarrow>
   'j loaded_data \<times> source"
where
  "loadGyms server_resp static_resp item realHistory now =
     (case loaded server_resp of
        Some serverData \<Rightarrow> (FromJson serverData, Server)
      | None \<Rightarrow>
          (case loaded static_resp of
             Some (HistoryDb historyDb) \<Rightarrow> (Built (map (cloud_gym historyDb) DEFAULT_GYMS), Cloud)
           | _ \<Rightarrow>
               (case item of
                  Item (Some parsed) \<Rightarrow> (FromJson parsed, Local)
                | _ \<Rightarrow> (Built (map (seed_gym realHistory now) DEFAULT_GYMS), Local))))"

section \<open>Aggregates (components/Charts.tsx)\<close>

text \<open>
  \<^verbatim>\<open>RecentActivityChart\<close>: the selection of the data points, and the chart rows built from
  them.  The two locale-dependent formatters of a time stamp are parameters.
\<close>

definition recent :: "int \<Rightarrow> DataPoint list \<Rightarrow> DataPoint list" where
  "recent now data =
     (let oneDay = 24 * 60 * 60 * 1000;
          r = filter (\<lambda>d. timestamp d > now - oneDay) data
      in if length r = 0 \<and> length data > 0 then slice_last 20 data else r)"

record ChartRow =
  row_time :: string
  row_visitors :: js_number
  row_timestamp :: int
  row_date :: string

definition RecentActivityChart ::
  "(int \<Rightarrow> string) \<Rightarrow> (int \<Rightarrow> string) \<Rightarrow> int \<Rightarrow> DataPoint list \<Rightarrow> ChartRow list" where
  "RecentActivityChart toTime toDate now data =
     map (\<lambda>d. \<lparr>row_time = toTime (timestamp d), row_visitors = visitors d,
                row_timestamp = timestamp d, row_date = toDate (timestamp d)\<rparr>)
         (recent now data)"

text \<open>
  \<^verbatim>\<open>new Date(t).getDay()\<close> after ECMAScript: the week day of the local time
  \<open>t + LocalTZA t\<close>, where day 0 of the epoch is a Thursday; outside the range of valid time
  values the date is invalid and the result is \<^verbatim>\<open>NaN\<close>.  The offset of the local time zone is a
  parameter.
\<close>

definition getDay :: "(int \<Rightarrow> int) \<Rightarrow> int \<Rightarrow> nat option" where
  "getDay tza t =
     (if \<bar>t\<bar> > 8640000000000000 then None
      else Some (nat (((t + tza t) div 86400000 + 4) mod 7)))"

text \<open>
  The sum of two numbers, and \<^verbatim>\<open>Math.round(s / c)\<close> for a count \<open>c > 0\<close>: for a finite \<open>s\<close>
  the integer nearest to the quotient, a tie going up.  (Finite sums and quotients are taken
  exactly, which is what the doubles give as long as the sum stays below \<open>2 ^ 52\<close>.)
\<close>

fun js_add :: "js_number \<Rightarrow> js_number \<Rightarrow> js_number" where
  "js_add (Finite a) (Finite b) = Finite (a + b)"
| "js_add NaN y = NaN"
| "js_add x NaN = NaN"
| "js_add Infinity MinusInfinity = NaN"
| "js_add MinusInfinity Infinity = NaN"
| "js_add Infinity y = Infinity"
| "js_add x Infinity = Infinity"
| "js_add MinusInfinity y = MinusInfinity"
| "js_add x MinusInfinity = MinusInfinity"

definition round_div :: "int \<Rightarrow> int \<Rightarrow> int" where
  "round_div s c = (2 * s + c) div (2 * c)"

fun js_round_div :: "js_number \<Rightarrow> int \<Rightarrow> js_number" where
  "js_round_div (Finite s) c = Finite (round_div s c)"
| "js_round_div x c = x"

text \<open>The body of \<^verbatim>\<open>data.forEach\<close>; an index \<^verbatim>\<open>NaN\<close> touches none of the seven buckets.\<close>

definition day_step ::
  "(int \<Rightarrow> int) \<Rightarrow> js_number list \<times> int list \<Rightarrow> DataPoint \<Rightarrow> js_number list \<times> int list" where
  "day_step tza acc d =
     (case getDay tza (timestamp d) of
        None \<Rightarrow> acc
      | Some dayIndex \<Rightarrow>
          ((fst acc)[dayIndex := js_add (fst acc ! dayIndex) (visitors d)],
           (snd acc)[dayIndex := snd acc ! dayIndex + 1]))"

definition days :: "string list" where
  "days = [''Sun'', ''Mon'', ''Tue'', ''Wed'', ''Thu'', ''Fri'', ''Sat'']"

definition DayAverageChart :: "(int \<Rightarrow> int) \<Rightarrow> DataPoint list \<Rightarrow> (string \<times> js_number) list" where
  "DayAverageChart tza data =
     (let acc = foldl (day_step tza) (replicate 7 (Finite 0), replicate 7 0) data;
          sums = fst acc; counts = snd acc
      in map (\<lambda>i. (days ! i,
                    if counts ! i > 0 then js_round_div (sums ! i) (counts ! i) else Finite 0))
             [0..<7])"

section \<open>Notions used to state the properties\<close>

text \<open>The requests of a trace, in order, and the test for a write.\<close>

definition fetches :: "event list \<Rightarrow> string list" where
  "fetches tr = concat (map (\<lambda>e. case e of Fetch u \<Rightarrow> [u] | Write d \<Rightarrow> []) tr)"

fun is_write :: "event \<Rightarrow> bool" where
  "is_write (Write d) = True"
| "is_write (Fetch u) = False"

text \<open>The samples of a history that fall on week day \<open>i\<close> (0 is Sunday).\<close>

definition on_day :: "(int \<Rightarrow> int) \<Rightarrow> nat \<Rightarrow> DataPoint list \<Rightarrow> DataPoint list" where
  "on_day tza i data = filter (\<lambda>d. getDay tza (timestamp d) = Some i) data"






section \<open>The sampler\<close>

lemmas parse_simps = parseInt_def trim_def is_space_def is_digit_def js_def to_double_def





section \<open>The source resolver\<close>

text \<open>
  C3: the resolver takes the first tier that succeeds, in the order server, static file, local
  storage, seed data, and the whole result comes from that tier.  When the server answers with
  JSON, the result is that JSON value tagged \<open>Server\<close>, whatever the other tiers hold.  When the
  server fails and the static file is loaded, the result is tagged \<open>Cloud\<close> and holds the one
  default facility with the history that the file has for it, the last entry of that history
  as current sample and its time stamp as time of the last update.  When both fail, the tag is
  \<open>Local\<close> and the result is the parsed local storage or else the facility built from the
  seed history.
\<close>

theorem loadGyms_tier_order:
  "(server_resp = Response True (Some serverData) \<longrightarrow>
      loadGyms server_resp static_resp item realHistory now = (FromJson serverData, Server)) \<and>
   ((\<forall>j. server_resp \<noteq> Response True (Some j)) \<and>
    static_resp = Response True (Some (HistoryDb historyDb)) \<and>
    h = (case historyDb ''glattpark'' of None \<Rightarrow> [] | Some arr \<Rightarrow> arr) \<longrightarrow>
      loadGyms server_resp static_resp item realHistory now =
        (Built [\<lparr>config = \<lparr>gym_id = ''glattpark'', gym_name = ''FP Glattpark'', parkId = ''698'',
                            locationId = ''31'', locationName = ''FP_Glattpark''\<rparr>,
                  current = (if h = [] then None else Some (last h)),
                  history = h,
                  lastUpdated = (if h = [] then 0 else timestamp (last h))\<rparr>], Cloud)) \<and>
   ((\<forall>j. server_resp \<noteq> Response True (Some j)) \<and>
    (\<forall>d. static_resp \<noteq> Response True (Some (HistoryDb d))) \<and>
    item = Item (Some parsed) \<longrightarrow>
      loadGyms server_resp static_resp item realHistory now = (FromJson parsed, Local)) \<and>
   ((\<forall>j. server_resp \<noteq> Response True (Some j)) \<and>
    (\<forall>d. static_resp \<noteq> Response True (Some (HistoryDb d))) \<and>
    (\<forall>p. item \<noteq> Item (Some p)) \<longrightarrow>
      loadGyms server_resp static_resp item realHistory now =
        (Built [\<lparr>config = \<lparr>gym_id = ''glattpark'', gym_name = ''FP Glattpark'', parkId = ''698'',
                            locationId = ''31'', locationName = ''FP_Glattpark''\<rparr>,
                  current = (if realHistory = [] then None else Some (last realHistory)),
                  history = realHistory,
                  lastUpdated = (if realHistory = [] then now
                                 else timestamp (last realHistory))\<rparr>], Local))"
proof -
  have l1: "loaded r = None" if "\<forall>j. r \<noteq> Response True (Some j)" for r :: "'b response"
    using that by (cases r rule: loaded.cases) auto
  have l2: "(case loaded r of Some (HistoryDb d) \<Rightarrow> f d | _ \<Rightarrow> g) = g"
    if "\<forall>d. r \<noteq> Response True (Some (HistoryDb d))" for r f and g :: 'c
    using that by (cases r rule: loaded.cases) (auto split: history_doc.splits)
  show ?thesis
    by (auto simp: loadGyms_def l1 l2 cloud_gym_def seed_gym_def DEFAULT_GYMS_def
        split: stored.splits option.splits)
qed

theorem loadGyms_tier_order_witness:
  "loadGyms (Response True (Some ''[server]''))
     (Response True (Some (HistoryDb
        [''glattpark'' \<mapsto> [\<lparr>timestamp = 1000, visitors = Finite 78, maxCapacity = 300\<rparr>]])))
     (Item (Some ''[local]''))
     [\<lparr>timestamp = 7, visitors = Finite 3, maxCapacity = 300\<rparr>] 9000
     = (FromJson ''[server]'', Server) \<and>
   loadGyms (Response False (Some ''[server]''))
     (Response True (Some (HistoryDb
        [''glattpark'' \<mapsto> [\<lparr>timestamp = 1000, visitors = Finite 78, maxCapacity = 300\<rparr>]])))
     (Item (Some ''[local]''))
     [\<lparr>timestamp = 7, visitors = Finite 3, maxCapacity = 300\<rparr>] 9000
     = (Built [\<lparr>config = \<lparr>gym_id = ''glattpark'', gym_name = ''FP Glattpark'', parkId = ''698'',
                         locationId = ''31'', locationName = ''FP_Glattpark''\<rparr>,
                current = Some \<lparr>timestamp = 1000, visitors = Finite 78, maxCapacity = 300\<rparr>,
                history = [\<lparr>timestamp = 1000, visitors = Finite 78, maxCapacity = 300\<rparr>],
                lastUpdated = 1000\<rparr>], Cloud) \<and>
   loadGyms Rejected (Response True (Some NullDocument)) (Item (Some ''[local]''))
     [\<lparr>timestamp = 7, visitors = Finite 3, maxCapacity = 300\<rparr>] 9000
     = (FromJson ''[local]'', Local) \<and>
   loadGyms (Response True None) Rejected (Item (None :: string option))
     [\<lparr>timestamp = 7, visitors = Finite 3, maxCapacity = 300\<rparr>] 9000
     = (Built [\<lparr>config = \<lparr>gym_id = ''glattpark'', gym_name = ''FP Glattpark'', parkId = ''698'',
                         locationId = ''31'', locationName = ''FP_Glattpark''\<rparr>,
                current = Some \<lparr>timestamp = 7, visitors = Finite 3, maxCapacity = 300\<rparr>,
                history = [\<lparr>timestamp = 7, visitors = Finite 3, maxCapacity = 300\<rparr>],
                lastUpdated = 7\<rparr>], Local)"
proof -
  let ?db = "[''glattpark'' \<mapsto> [\<lparr>timestamp = 1000, visitors = Finite 78, maxCapacity = 300\<rparr>]]"
  let ?st = "Response True (Some (HistoryDb ?db))"
  let ?seed = "[\<lparr>timestamp = 7, visitors = Finite 3, maxCapacity = 300\<rparr>]"
  have a: "loadGyms (Response True (Some ''[server]'')) ?st (Item (Some ''[local]'')) ?seed 9000
      = (FromJson ''[server]'', Server)"
    using loadGyms_tier_order [of "Response True (Some ''[server]'')" "''[server]''" ?st
        "Item (Some ''[local]'')" ?seed 9000 ?db "[]" "''[local]''"]
    by simp
  have b: "loadGyms (Response False (Some ''[server]'')) ?st (Item (Some ''[local]'')) ?seed 9000
      = (Built [\<lparr>config = \<lparr>gym_id = ''glattpark'', gym_name = ''FP Glattpark'', parkId = ''698'',
                         locationId = ''31'', locationName = ''FP_Glattpark''\<rparr>,
                current = Some \<lparr>timestamp = 1000, visitors = Finite 78, maxCapacity = 300\<rparr>,
                history = [\<lparr>timestamp = 1000, visitors = Finite 78, maxCapacity = 300\<rparr>],
                lastUpdated = 1000\<rparr>], Cloud)"
    using loadGyms_tier_order [of "Response False (Some ''[server]'')" "''[server]''" ?st
        "Item (Some ''[local]'')" ?seed 9000 ?db
        "[\<lparr>timestamp = 1000, visitors = Finite 78, maxCapacity = 300\<rparr>]" "''[local]''"]
    by simp
  have c: "loadGyms Rejected (Response True (Some NullDocument)) (Item (Some ''[local]'')) ?seed 9000
      = (FromJson ''[local]'', Local)"
    using loadGyms_tier_order [of Rejected "''[server]''" "Response True (Some NullDocument)"
        "Item (Some ''[local]'')" ?seed 9000 ?db "[]" "''[local]''"]
    by simp
  have d: "loadGyms (Response True None) Rejected (Item (None :: string option)) ?seed 9000
      = (Built [\<lparr>config = \<lparr>gym_id = ''glattpark'', gym_name = ''FP Glattpark'', parkId = ''698'',
                         locationId = ''31'', locationName = ''FP_Glattpark''\<rparr>,
                current = Some \<lparr>timestamp = 7, visitors = Finite 3, maxCapacity = 300\<rparr>,
                history = [\<lparr>timestamp = 7, visitors = Finite 3, maxCapacity = 300\<rparr>],
                lastUpdated = 7\<rparr>], Local)"
    using loadGyms_tier_order [of "Response True None" "''[server]''" Rejected
        "Item None" ?seed 9000 ?db "[]" "''[local]''"]
    by simp
  show ?thesis using a b c d by simp
qed

section \<open>Loading the backing document\<close>

text \<open>
  C5: a malformed or unreadable backing document is to be loaded as the empty mapping and is
  never to be fatal.  The updater does so.  The server does not: in \<^verbatim>\<open>initDB\<close> the exception
  of \<^verbatim>\<open>JSON.parse\<close> (or of \<^verbatim>\<open>fs.readFileSync\<close>) is not caught and ends the start-up.
\<close>

theorem initDB_malformed_is_fatal:
  "initDB seedHistory (s\<lparr>sfile := Malformed\<rparr>) = Inl SyntaxError \<and>
   initDB seedHistory (s\<lparr>sfile := Unreadable\<rparr>) = Inl FsError \<and>
   load Malformed = Map.empty \<and> load Unreadable = Map.empty"
  by (simp add: initDB_def load_def)

section \<open>Duplicates and retention\<close>

lemma slice_last_id: "length xs \<le> n \<Longrightarrow> slice_last n xs = xs"
  by (simp add: slice_last_def)

lemma length_slice_last: "length (slice_last n xs) = min n (length xs)"
  by (simp add: slice_last_def)

lemma append_point_eq:
  "append_point arr p now =
     slice_last 5000 (if arr = [] \<or> now - timestamp (last arr) > 60000 then arr @ [p] else arr)"
  by (simp add: append_point_def Let_def slice_last_id)

lemma length_append_point: "length (append_point arr p now) \<le> 5000"
  by (simp add: append_point_eq length_slice_last)

lemma sorted_le_last:
  "sorted (map f xs) \<Longrightarrow> x \<in> set xs \<Longrightarrow> f x \<le> f (last xs)"
proof (induction xs)
  case Nil
  then show ?case by simp
next
  case (Cons a xs)
  then show ?case by (cases xs) auto
qed

lemma sorted_append_point:
  assumes "sorted (map timestamp arr)" "now - timestamp p \<le> 60000"
  shows "sorted (map timestamp (append_point arr p now))"
proof -
  let ?arr1 = "if arr = [] \<or> now - timestamp (last arr) > 60000 then arr @ [p] else arr"
  have "sorted (map timestamp ?arr1)"
  proof (cases "arr = [] \<or> now - timestamp (last arr) > 60000")
    case True
    have "timestamp x \<le> timestamp p" if "x \<in> set arr" for x
    proof -
      from that have ne: "arr \<noteq> []" by auto
      with True have "now - timestamp (last arr) > 60000" by simp
      moreover have "timestamp x \<le> timestamp (last arr)"
        using sorted_le_last [OF assms(1) that] .
      ultimately show ?thesis using assms(2) by linarith
    qed
    with True assms(1) show ?thesis by (auto simp: sorted_append)
  next
    case False
    with assms(1) show ?thesis by simp
  qed
  then have "sorted (drop (length ?arr1 - 5000) (map timestamp ?arr1))"
    by (rule sorted_wrt_drop)
  then show ?thesis
    by (simp only: append_point_eq slice_last_def drop_map)
qed

lemma length_appends: "length arr \<le> 5000 \<or> ws \<noteq> [] \<Longrightarrow> length (appends arr ws) \<le> 5000"
proof (induction arr ws rule: appends.induct)
  case (1 arr)
  then show ?case by simp
next
  case (2 arr v tp tc rest)
  then show ?case by (simp add: length_append_point)
qed

lemma sorted_appends:
  "sorted (map timestamp arr) \<Longrightarrow> list_all (\<lambda>(v, tp, tc). tc - tp \<le> 60000) ws \<Longrightarrow>
   sorted (map timestamp (appends arr ws))"
proof (induction arr ws rule: appends.induct)
  case (1 arr)
  then show ?case by simp
next
  case (2 arr v tp tc rest)
  then show ?case by (simp add: sorted_append_point)
qed

text \<open>
  C1 (as stated): every append of a sample less than 60000 ms after the last stored one is a
  no-op.  The server's \<^verbatim>\<open>fetchGymData\<close> has no such test: a sample taken 30 s after the last
  one is pushed.
\<close>

theorem server_appends_within_window_counterexample:
  "sdb (snd (server_fetchGymData
         \<lparr>gym_id = ''glattpark'', gym_name = ''FP Glattpark'', parkId = ''698'',
          locationId = ''31'', locationName = ''FP_Glattpark'', url = ''u''\<rparr>
         \<lparr>sreply = Response True (Some (js ''76'')), snow = 31000, write_ok = True\<rparr>
         \<lparr>gyms = [], sdb = [''glattpark'' \<mapsto> [\<lparr>timestamp = 1000, visitors = Finite 78, maxCapacity = 300\<rparr>]],
          sfile = Missing, strace = []\<rparr>)) ''glattpark'' =
     Some [\<lparr>timestamp = 1000, visitors = Finite 78, maxCapacity = 300\<rparr>,
           \<lparr>timestamp = 31000, visitors = Finite 76, maxCapacity = 300\<rparr>]"
  by (simp add: server_fetchGymData_def settle_def issue_def Let_def parse_simps)

text \<open>
  C1 (amended): in the static updater, when the series has a last sample, the clock read by
  the duplicate check is at most 60000 ms after that sample's time stamp and the series holds at
  most 5000 samples, the step leaves the whole document unchanged, and so does the run: the
  incoming sample is discarded.  (The current sample and the time of the last update are
  computed from the history by the readers of the document, so they do not change either.)
\<close>

theorem dedup_is_noop:
  "(d gid = Some arr \<and> arr \<noteq> [] \<and> now_check w - timestamp (last arr) \<le> 60000 \<and>
    length arr \<le> 5000 \<longrightarrow> update_gym d gid w = d) \<and>
   (d ''glattpark'' = Some arr \<and> arr \<noteq> [] \<and>
    now_check (world 0) - timestamp (last arr) \<le> 60000 \<and> length arr \<le> 5000 \<longrightarrow>
      udb (run (Document d) world) = d)"
proof -
  have a: "update_gym d g w = d"
    if "d g = Some arr" "arr \<noteq> []" "now_check w - timestamp (last arr) \<le> 60000"
       "length arr \<le> 5000" for g w
    using that
    by (auto simp: update_gym_def append_point_def Let_def map_upd_triv split: option.splits)
  show ?thesis
    using a [of gid w] a [of "''glattpark''" "world 0"]
    by (auto simp: run_def run_for_def GYMS_def load_def Let_def)
qed

theorem dedup_is_noop_witness:
  "udb (run (Document [''glattpark'' \<mapsto> [\<lparr>timestamp = 1000, visitors = Finite 78, maxCapacity = 300\<rparr>]])
          (\<lambda>i. \<lparr>reply = Response True (Some (js ''76'')), now_point = 31000, now_check = 31000\<rparr>))
     = [''glattpark'' \<mapsto> [\<lparr>timestamp = 1000, visitors = Finite 78, maxCapacity = 300\<rparr>]]"
  using dedup_is_noop [of "[''glattpark'' \<mapsto> [\<lparr>timestamp = 1000, visitors = Finite 78, maxCapacity = 300\<rparr>]]"
      "''glattpark''" "[\<lparr>timestamp = 1000, visitors = Finite 78, maxCapacity = 300\<rparr>]"
      "\<lparr>reply = Response True (Some (js ''76'')), now_point = 31000, now_check = 31000\<rparr>"
      "\<lambda>i. \<lparr>reply = Response True (Some (js ''76'')), now_point = 31000, now_check = 31000\<rparr>"]
  by simp

text \<open>
  C2 (as stated): after any sequence of appends a history has at most 5000 entries.  The
  server's \<^verbatim>\<open>fetchGymData\<close> never trims: a history of 5000 entries has 5001 after the next
  sample.
\<close>

theorem server_history_unbounded_counterexample:
  "map_option length
     (sdb (snd (server_fetchGymData
         \<lparr>gym_id = ''glattpark'', gym_name = ''FP Glattpark'', parkId = ''698'',
          locationId = ''31'', locationName = ''FP_Glattpark'', url = ''u''\<rparr>
         \<lparr>sreply = Response True (Some (js ''76'')), snow = 1800000, write_ok = True\<rparr>
         \<lparr>gyms = [], sdb = [''glattpark'' \<mapsto> replicate 5000 \<lparr>timestamp = 1000, visitors = Finite 78, maxCapacity = 300\<rparr>],
          sfile = Missing, strace = []\<rparr>)) ''glattpark'') = Some 5001"
  by (simp add: server_fetchGymData_def settle_def issue_def Let_def parse_simps)

text \<open>
  C2 (amended): in the static updater, a step whose request succeeded stores for the facility
  the series after the push decision (the old series, with the new sample at its end unless
  it is a duplicate) cut to its last 5000 entries.  So the length is at most 5000; when the
  cap is exceeded exactly the excess is dropped, from the front (the oldest entries first),
  and otherwise nothing is dropped; the order of the entries is never changed.  A series sorted
  by time stamp stays sorted when the two clock values of the step are at most 60000 ms apart.
  The bound and the order hold after any sequence of such steps.
\<close>

theorem updater_retention_and_order:
  "(pushed = (if arr = [] \<or> now - timestamp (last arr) > 60000 then arr @ [p] else arr) \<longrightarrow>
      append_point arr p now = drop (length pushed - 5000) pushed \<and>
      length (append_point arr p now) = min 5000 (length pushed) \<and>
      (length pushed \<le> 5000 \<longrightarrow> append_point arr p now = pushed)) \<and>
   (sorted (map timestamp arr) \<and> now - timestamp p \<le> 60000 \<longrightarrow>
      sorted (map timestamp (append_point arr p now))) \<and>
   (fetchVisitors (reply w) = Some v \<longrightarrow>
      update_gym d gid w =
        d(gid \<mapsto> append_point (case d gid of None \<Rightarrow> [] | Some a \<Rightarrow> a)
                   \<lparr>timestamp = now_point w, visitors = v, maxCapacity = 300\<rparr> (now_check w))) \<and>
   (ws \<noteq> [] \<or> length arr \<le> 5000 \<longrightarrow> length (appends arr ws) \<le> 5000) \<and>
   (sorted (map timestamp arr) \<and> list_all (\<lambda>(v, tp, tc). tc - tp \<le> 60000) ws \<longrightarrow>
      sorted (map timestamp (appends arr ws)))"
proof -
  let ?X = "if arr = [] \<or> now - timestamp (last arr) > 60000 then arr @ [p] else arr"
  have a0: "append_point arr p now = drop (length ?X - 5000) ?X \<and>
      length (append_point arr p now) = min 5000 (length ?X) \<and>
      (length ?X \<le> 5000 \<longrightarrow> append_point arr p now = ?X)"
    using slice_last_def [of 5000 ?X] length_slice_last [of 5000 ?X] slice_last_id [of ?X 5000]
    by (simp only: append_point_eq) simp
  have a: "pushed = ?X \<longrightarrow>
      append_point arr p now = drop (length pushed - 5000) pushed \<and>
      length (append_point arr p now) = min 5000 (length pushed) \<and>
      (length pushed \<le> 5000 \<longrightarrow> append_point arr p now = pushed)"
    using a0 by blast
  have u: "fetchVisitors (reply w) = Some v \<longrightarrow>
      update_gym d gid w =
        d(gid \<mapsto> append_point (case d gid of None \<Rightarrow> [] | Some a \<Rightarrow> a)
                   \<lparr>timestamp = now_point w, visitors = v, maxCapacity = 300\<rparr> (now_check w))"
    by (simp add: update_gym_def)
  have l: "ws \<noteq> [] \<or> length arr \<le> 5000 \<longrightarrow> length (appends arr ws) \<le> 5000"
    using length_appends [of arr ws] by blast
  show ?thesis
    using a u l sorted_append_point [of arr now p] sorted_appends [of arr ws]
    by blast
qed

theorem updater_retention_and_order_witness:
  "append_point (replicate 5000 \<lparr>timestamp = 1000, visitors = Finite 78, maxCapacity = 300\<rparr>)
     \<lparr>timestamp = 71000, visitors = Finite 90, maxCapacity = 300\<rparr> 71000 =
     replicate 4999 \<lparr>timestamp = 1000, visitors = Finite 78, maxCapacity = 300\<rparr> @
     [\<lparr>timestamp = 71000, visitors = Finite 90, maxCapacity = 300\<rparr>] \<and>
   length (append_point (replicate 5000 \<lparr>timestamp = 1000, visitors = Finite 78, maxCapacity = 300\<rparr>)
     \<lparr>timestamp = 71000, visitors = Finite 90, maxCapacity = 300\<rparr> 71000) = 5000 \<and>
   sorted (map timestamp
     (append_point (replicate 5000 \<lparr>timestamp = 1000, visitors = Finite 78, maxCapacity = 300\<rparr>)
        \<lparr>timestamp = 71000, visitors = Finite 90, maxCapacity = 300\<rparr> 71000)) \<and>
   append_point [\<lparr>timestamp = 1000, visitors = Finite 78, maxCapacity = 300\<rparr>]
     \<lparr>timestamp = 71000, visitors = Finite 90, maxCapacity = 300\<rparr> 71000 =
     [\<lparr>timestamp = 1000, visitors = Finite 78, maxCapacity = 300\<rparr>,
      \<lparr>timestamp = 71000, visitors = Finite 90, maxCapacity = 300\<rparr>] \<and>
   fetchVisitors (Response True (Some (js ''90''))) = Some (Finite 90) \<and>
   update_gym Map.empty ''glattpark''
      \<lparr>reply = Response True (Some (js ''90'')), now_point = 71000, now_check = 71000\<rparr> ''glattpark''
     = Some [\<lparr>timestamp = 71000, visitors = Finite 90, maxCapacity = 300\<rparr>] \<and>
   length (appends (replicate 5000 \<lparr>timestamp = 1000, visitors = Finite 78, maxCapacity = 300\<rparr>)
     [(Finite 76, 31000, 31000), (Finite 90, 71000, 71000)]) \<le> 5000 \<and>
   sorted (map timestamp
     (appends (replicate 5000 \<lparr>timestamp = 1000, visitors = Finite 78, maxCapacity = 300\<rparr>)
        [(Finite 76, 31000, 31000), (Finite 90, 71000, 71000)]))"
proof -
  let ?p = "\<lparr>timestamp = 1000, visitors = Finite 78, maxCapacity = 300\<rparr>"
  let ?q = "\<lparr>timestamp = 71000, visitors = Finite 90, maxCapacity = 300\<rparr>"
  let ?w = "\<lparr>reply = Response True (Some (js ''90'')), now_point = 71000, now_check = 71000\<rparr>"
  let ?ws = "[(Finite 76, 31000, 31000), (Finite 90, 71000, 71000)]"
  have f: "fetchVisitors (Response True (Some (js ''90''))) = Some (Finite 90)"
    by (simp add: fetchVisitors_def parse_simps)
  have s: "sorted (map timestamp (replicate 5000 ?p))"
    by (simp add: sorted_replicate)
  note big = updater_retention_and_order
      [of "replicate 4999 ?p @ [?p, ?q]" "replicate 5000 ?p" 71000 ?q ?w "Finite 90"
          Map.empty "''glattpark''" ?ws]
  note small = updater_retention_and_order
      [of "[?p, ?q]" "[?p]" 71000 ?q ?w "Finite 90" Map.empty "''glattpark''" ?ws]
  have r: "replicate 5000 ?p = replicate 4999 ?p @ [?p]"
  proof -
    have "(5000::nat) = Suc 4999" by simp
    then show ?thesis by (simp only: replicate_Suc replicate_append_same)
  qed
  have pb: "replicate 4999 ?p @ [?p, ?q] =
      (if replicate 5000 ?p = [] \<or> 71000 - timestamp (last (replicate 5000 ?p)) > 60000
       then replicate 5000 ?p @ [?q] else replicate 5000 ?p)"
    by (simp add: r)
  have c1: "append_point (replicate 5000 ?p) ?q 71000 = replicate 4999 ?p @ [?q] \<and>
      length (append_point (replicate 5000 ?p) ?q 71000) = 5000"
    using big pb by simp
  have c2: "sorted (map timestamp (append_point (replicate 5000 ?p) ?q 71000))"
    using big s by simp
  have c3: "append_point [?p] ?q 71000 = [?p, ?q]"
    using small by simp
  have c4: "update_gym Map.empty ''glattpark'' ?w ''glattpark'' = Some [?q]"
    using small f by (simp add: append_point_def)
  have c5: "length (appends (replicate 5000 ?p) ?ws) \<le> 5000"
    using big by simp
  have c6: "sorted (map timestamp (appends (replicate 5000 ?p) ?ws))"
    using big s by simp
  show ?thesis
    using c1 c2 c3 c4 c5 c6 f by simp
qed

section \<open>Batches\<close>

lemma run_loop_trace: "utrace (run_loop i gs world s) = utrace s @ map (Fetch \<circ> snd) gs"
  by (induction i gs world s rule: run_loop.induct) simp_all

lemma gyms_issue [simp]: "gyms (issue g s) = gyms s"
  by (simp add: issue_def)

lemma gyms_settle [simp]: "gyms (snd (settle g w s)) = gyms s"
  by (simp add: settle_def Let_def split: response.splits option.splits)

lemma fetches_append [simp]: "fetches (xs @ ys) = fetches xs @ fetches ys"
  by (simp add: fetches_def)

lemma fetches_issue [simp]: "fetches (strace (issue g s)) = fetches (strace s) @ [url g]"
  by (simp add: issue_def fetches_def)

lemma fetches_settle [simp]: "fetches (strace (snd (settle g w s))) = fetches (strace s)"
  by (simp add: settle_def Let_def fetches_def split: response.splits option.splits)












text \<open>
  C7 (as stated): in every batch the save is the last step, after all fetches, never one per
  facility.  The server's \<^verbatim>\<open>runJob\<close> over two facilities whose requests succeed writes the
  document after the first request and again after the second.
\<close>

theorem server_saves_per_facility_counterexample:
  "map is_write (strace (runJob
      (\<lambda>i. \<lparr>sreply = Response True (Some (js ''76'')), snow = 1800000, write_ok = True\<rparr>)
      \<lparr>gyms = [\<lparr>gym_id = ''a'', gym_name = ''A'', parkId = ''1'', locationId = ''1'',
                locationName = ''A'', url = ''ua''\<rparr>,
               \<lparr>gym_id = ''b'', gym_name = ''B'', parkId = ''2'', locationId = ''2'',
                locationName = ''B'', url = ''ub''\<rparr>],
        sdb = Map.empty, sfile = Missing, strace = []\<rparr>)) = [False, True, False, True]"
  by (simp add: runJob_def server_fetchGymData_def settle_def issue_def Let_def parse_simps)

text \<open>
  C7 (amended): in every run of the static updater the requests of all facilities come first
  and are followed by exactly one save, which is the last step and writes the whole document
  as it stands after the loop; the file then holds that document.
\<close>

theorem updater_saves_once_at_end:
  "utrace (run_for gs f world) = map (Fetch \<circ> snd) gs @ [Write (udb (run_for gs f world))] \<and>
   ufile (run_for gs f world) = Document (udb (run_for gs f world)) \<and>
   utrace (run f world) = map (Fetch \<circ> snd) GYMS @ [Write (udb (run f world))] \<and>
   ufile (run f world) = Document (udb (run f world))"
  by (simp add: run_def run_for_def Let_def run_loop_trace)




section \<open>Aggregates\<close>

text \<open>
  The fall-back of the recent window: when no sample is newer than 24 hours, the result is
  the last 20 entries of the history in their order (all of them when there are fewer).
\<close>

lemma recent_fallback:
  assumes "\<forall>d \<in> set data. timestamp d \<le> now - 86400000"
  shows "recent now data = drop (length data - 20) data"
proof -
  from assms have "filter (\<lambda>d. timestamp d > now - 86400000) data = []"
    by (auto simp: filter_empty_conv)
  then show ?thesis by (cases data) (simp_all add: recent_def slice_last_def)
qed

lemma recent_fallback_last_20:
  assumes "\<forall>d \<in> set data. timestamp d \<le> now - 86400000" "20 \<le> length data"
  shows "length (recent now data) = 20 \<and>
         (\<forall>i<20. recent now data ! i = data ! (length data - 20 + i))"
  using assms by (simp add: recent_fallback)

lemma recent_filter:
  "recent now data =
     (if \<exists>d \<in> set data. timestamp d > now - 86400000
      then filter (\<lambda>d. timestamp d > now - 86400000) data
      else drop (length data - 20) data)"
  by (auto simp: recent_fallback not_less) (auto simp: recent_def filter_empty_conv)

text \<open>
  C9: the recent window is to hold exactly the samples of the last 24 hours, and the last 20
  entries when there is none.  The filter of \<^verbatim>\<open>RecentActivityChart\<close> has a lower bound only
  (\<^verbatim>\<open>d.timestamp > now - oneDay\<close>), although its comment counts data dated in the future among
  the cases of the fall-back.  A sample dated one hour after the clock is returned next to a
  sample of the last hour, and of 21 samples that are all dated after the clock all 21 are
  returned, not the last 20.
\<close>

theorem recent_keeps_future_samples:
  "recent 1750000000000
     [\<lparr>timestamp = 1749996400000, visitors = Finite 78, maxCapacity = 300\<rparr>,
      \<lparr>timestamp = 1750003600000, visitors = Finite 90, maxCapacity = 300\<rparr>] =
     [\<lparr>timestamp = 1749996400000, visitors = Finite 78, maxCapacity = 300\<rparr>,
      \<lparr>timestamp = 1750003600000, visitors = Finite 90, maxCapacity = 300\<rparr>] \<and>
   length (recent 1750000000000
     (map (\<lambda>k. \<lparr>timestamp = 1750003600000 + k, visitors = Finite 78, maxCapacity = 300\<rparr>)
        [0, 1, 2, 3, 4, 5, 6, 7, 8, 9, 10, 11, 12, 13, 14, 15, 16, 17, 18, 19, 20])) = 21"
  by (simp add: recent_def)

lemma getDay_less: "getDay tza t = Some k \<Longrightarrow> k < 7"
  by (auto simp: getDay_def split: if_splits)

lemma day_step_length:
  "length (fst (day_step tza acc d)) = length (fst acc) \<and>
   length (snd (day_step tza acc d)) = length (snd acc)"
  by (simp add: day_step_def split: option.splits)

lemma day_step_nth:
  assumes "length (fst acc) = 7" "length (snd acc) = 7" "i < 7"
  shows "fst (day_step tza acc d) ! i =
           (if getDay tza (timestamp d) = Some i then js_add (fst acc ! i) (visitors d)
            else fst acc ! i)"
    and "snd (day_step tza acc d) ! i =
           snd acc ! i + (if getDay tza (timestamp d) = Some i then 1 else 0)"
  using assms by (auto simp: day_step_def nth_list_update dest: getDay_less split: option.splits)

lemma foldl_day_step:
  "length (fst acc) = 7 \<Longrightarrow> length (snd acc) = 7 \<Longrightarrow> i < 7 \<Longrightarrow>
   fst (foldl (day_step tza) acc data) ! i =
     foldl js_add (fst acc ! i) (map visitors (on_day tza i data)) \<and>
   snd (foldl (day_step tza) acc data) ! i = snd acc ! i + int (length (on_day tza i data))"
proof (induction data arbitrary: acc)
  case Nil
  then show ?case by (simp add: on_day_def)
next
  case (Cons d data)
  have l: "length (fst (day_step tza acc d)) = 7" "length (snd (day_step tza acc d)) = 7"
    using Cons.prems by (simp_all add: day_step_length)
  show ?case
    using Cons.IH [OF l Cons.prems(3)] day_step_nth [OF Cons.prems, of tza d]
    by (simp add: on_day_def)
qed

lemma bucket_value:
  assumes "i < 7"
  shows "snd (DayAverageChart tza data ! i) =
           (if on_day tza i data = [] then Finite 0
            else js_round_div (foldl js_add (Finite 0) (map visitors (on_day tza i data)))
                   (int (length (on_day tza i data))))"
proof -
  have n: "[0..<7] ! i = i" using assms by (metis add_0 nth_upt)
  have r: "replicate 7 (Finite 0) ! i = Finite 0" "replicate 7 (0::int) ! i = 0"
    using assms by simp_all
  show ?thesis
    using foldl_day_step [of "(replicate 7 (Finite 0), replicate 7 0)" i tza data] assms n r
    by (simp add: DayAverageChart_def Let_def del: upt_Suc replicate_Suc)
qed

lemma foldl_js_add_Finite:
  "foldl js_add (Finite a) (map Finite vs) = Finite (a + sum_list vs)"
  by (induction vs arbitrary: a) simp_all

lemma js_add_zero: "js_add (Finite 0) v = v"
  by (cases v) simp_all

lemma js_round_div_one: "js_round_div v 1 = v"
  by (cases v) (simp_all add: round_div_def)

text \<open>\<open>round_div s c\<close> is the integer nearest to \<open>s / c\<close>, a tie going up.\<close>

lemma round_div_nearest:
  assumes "0 < c"
  shows "c * (2 * round_div s c - 1) \<le> 2 * s \<and> 2 * s < c * (2 * round_div s c + 1)"
proof -
  let ?q = "(2 * s + c) div (2 * c)"
  let ?r = "(2 * s + c) mod (2 * c)"
  have e: "2 * s + c = 2 * c * ?q + ?r" by simp
  have b: "0 \<le> ?r" "?r < 2 * c" using assms by simp_all
  have m: "c * (2 * ?q - 1) = 2 * c * ?q - c" "c * (2 * ?q + 1) = 2 * c * ?q + c"
    by (simp_all add: algebra_simps)
  show ?thesis
    unfolding round_div_def m using e b by linarith
qed

text \<open>
  C10: the week-day chart has the seven buckets Sunday to Saturday.  A bucket without a sample
  reports 0; a bucket with exactly one sample reports the visitors of that sample; a bucket
  whose samples have the finite visitor counts \<open>vs\<close> reports their average, as the integer
  nearest to the sum of \<open>vs\<close> divided by their number (a half is rounded up); for the empty
  history every bucket reports 0.
\<close>

theorem DayAverageChart_buckets:
  "length (DayAverageChart tza data) = 7 \<and>
   map fst (DayAverageChart tza data) = days \<and>
   (\<forall>i<7.
      (on_day tza i data = [] \<longrightarrow> snd (DayAverageChart tza data ! i) = Finite 0) \<and>
      (\<forall>d. on_day tza i data = [d] \<longrightarrow> snd (DayAverageChart tza data ! i) = visitors d) \<and>
      (\<forall>vs. vs \<noteq> [] \<and> map visitors (on_day tza i data) = map Finite vs \<longrightarrow>
         (\<exists>a. snd (DayAverageChart tza data ! i) = Finite a \<and>
              int (length vs) * (2 * a - 1) \<le> 2 * sum_list vs \<and>
              2 * sum_list vs < int (length vs) * (2 * a + 1))) \<and>
      snd (DayAverageChart tza [] ! i) = Finite 0)"
proof -
  have a: "length (DayAverageChart tza data) = 7"
    by (simp add: DayAverageChart_def Let_def del: upt_Suc)
  have b: "map fst (DayAverageChart tza data) = days"
    by (simp add: DayAverageChart_def Let_def days_def upt_rec [of 0] upt_rec [of "Suc _"])
  have c: "snd (DayAverageChart tza [] ! i) = Finite 0" if "i < 7" for i
    using that by (simp add: bucket_value on_day_def)
  have d: "snd (DayAverageChart tza data ! i) = Finite 0"
    if "i < 7" "on_day tza i data = []" for i
    using that by (simp add: bucket_value)
  have e: "snd (DayAverageChart tza data ! i) = visitors d"
    if "i < 7" "on_day tza i data = [d]" for i d
    using that by (simp add: bucket_value js_add_zero js_round_div_one)
  have f: "\<exists>a. snd (DayAverageChart tza data ! i) = Finite a \<and>
              int (length vs) * (2 * a - 1) \<le> 2 * sum_list vs \<and>
              2 * sum_list vs < int (length vs) * (2 * a + 1)"
    if "i < 7" "vs \<noteq> []" "map visitors (on_day tza i data) = map Finite vs" for i vs
  proof -
    from that(3) have l: "length (on_day tza i data) = length vs"
      by (metis length_map)
    with that(2) have ne: "on_day tza i data \<noteq> []" by auto
    have pos: "0 < int (length vs)" using that(2) by simp
    have "snd (DayAverageChart tza data ! i) = Finite (round_div (sum_list vs) (int (length vs)))"
      using that(1) ne by (simp add: bucket_value that(3) foldl_js_add_Finite l)
    then show ?thesis
      using round_div_nearest [OF pos, of "sum_list vs"] by blast
  qed
  show ?thesis
    using a b c d e f by blast
qed

theorem DayAverageChart_buckets_witness:
  "map visitors (on_day (\<lambda>t. 7200000) 0
     [\<lparr>timestamp = 1750000000000, visitors = Finite 1, maxCapacity = 300\<rparr>,
      \<lparr>timestamp = 1750003600000, visitors = Finite 2, maxCapacity = 300\<rparr>,
      \<lparr>timestamp = 1750086400000, visitors = Finite 70, maxCapacity = 300\<rparr>]) =
     map Finite [1, 2] \<and>
   snd (DayAverageChart (\<lambda>t. 7200000)
     [\<lparr>timestamp = 1750000000000, visitors = Finite 1, maxCapacity = 300\<rparr>,
      \<lparr>timestamp = 1750003600000, visitors = Finite 2, maxCapacity = 300\<rparr>,
      \<lparr>timestamp = 1750086400000, visitors = Finite 70, maxCapacity = 300\<rparr>] ! 0) = Finite 2 \<and>
   snd (DayAverageChart (\<lambda>t. 7200000)
     [\<lparr>timestamp = 1750000000000, visitors = Finite 1, maxCapacity = 300\<rparr>,
      \<lparr>timestamp = 1750003600000, visitors = Finite 2, maxCapacity = 300\<rparr>,
      \<lparr>timestamp = 1750086400000, visitors = Finite 70, maxCapacity = 300\<rparr>] ! 1) = Finite 70 \<and>
   snd (DayAverageChart (\<lambda>t. 7200000)
     [\<lparr>timestamp = 1750000000000, visitors = Finite 1, maxCapacity = 300\<rparr>,
      \<lparr>timestamp = 1750003600000, visitors = Finite 2, maxCapacity = 300\<rparr>,
      \<lparr>timestamp = 1750086400000, visitors = Finite 70, maxCapacity = 300\<rparr>] ! 3) = Finite 0"
proof -
  let ?tz = "\<lambda>t::int. 7200000::int"
  let ?p1 = "\<lparr>timestamp = 1750000000000, visitors = Finite 1, maxCapacity = 300\<rparr>"
  let ?p2 = "\<lparr>timestamp = 1750003600000, visitors = Finite 2, maxCapacity = 300\<rparr>"
  let ?p3 = "\<lparr>timestamp = 1750086400000, visitors = Finite 70, maxCapacity = 300\<rparr>"
  let ?data = "[?p1, ?p2, ?p3]"
  have d0: "on_day ?tz 0 ?data = [?p1, ?p2]"
    by (simp add: on_day_def getDay_def)
  have d1: "on_day ?tz 1 ?data = [?p3]"
    by (simp add: on_day_def getDay_def)
  have d3: "on_day ?tz 3 ?data = []"
    by (simp add: on_day_def getDay_def)
  note b0 = DayAverageChart_buckets [of ?tz ?data, THEN conjunct2, THEN conjunct2,
      rule_format, of 0]
  note b1 = DayAverageChart_buckets [of ?tz ?data, THEN conjunct2, THEN conjunct2,
      rule_format, of 1]
  note b3 = DayAverageChart_buckets [of ?tz ?data, THEN conjunct2, THEN conjunct2,
      rule_format, of 3]
  have m: "map visitors (on_day ?tz 0 ?data) = map Finite [1, 2]"
    by (simp add: d0)
  from b0 have "\<forall>vs. vs \<noteq> [] \<and> map visitors (on_day ?tz 0 ?data) = map Finite vs \<longrightarrow>
         (\<exists>a. snd (DayAverageChart ?tz ?data ! 0) = Finite a \<and>
              int (length vs) * (2 * a - 1) \<le> 2 * sum_list vs \<and>
              2 * sum_list vs < int (length vs) * (2 * a + 1))"
    by simp
  from this [rule_format, of "[1, 2]"] m
  obtain a where a: "snd (DayAverageChart ?tz ?data ! 0) = Finite a"
      "2 * (2 * a - 1) \<le> 6" "6 < 2 * (2 * a + 1)"
    by auto
  from a(2,3) have "a = 2" by presburger
  with a(1) have c0: "snd (DayAverageChart ?tz ?data ! 0) = Finite 2" by simp
  have c1: "snd (DayAverageChart ?tz ?data ! 1) = Finite 70"
    using b1 d1 by simp
  have c3: "snd (DayAverageChart ?tz ?data ! 3) = Finite 0"
    using b3 d3 by simp
  show ?thesis
    using m c0 c1 c3 by simp
qed

end
